theory Spec2Isabelle
  imports Main
begin

section \<open>Fonty: the glyph replacer script\<close>

text \<open>
  The script \<^verbatim>\<open>Fonty.py\<close> reads code points, metadata and choices from standard input,
  picks a source and a destination font file, copies the destination to the output path
  and replaces glyphs of the copy by scaled glyphs of the source.

  Python strings are modelled as \<^typ>\<open>string\<close>; a \<^typ>\<open>char\<close> stands for the code point
  of the same number, so the model covers the strings over code points below 256.
  Python integers are \<^typ>\<open>int\<close>.
\<close>

subsection \<open>Python string methods and \<^verbatim>\<open>int(s, base)\<close>\<close>

text \<open>
  \<^verbatim>\<open>str.isspace\<close> on one code point below 256: the ASCII white space
  (9 to 13, 28 to 32), NEL (133) and the no-break space (160).
\<close>

definition py_isspace :: "char \<Rightarrow> bool" where
  "py_isspace c =
     (let n = (of_char c :: nat)
      in (9 \<le> n \<and> n \<le> 13) \<or> (28 \<le> n \<and> n \<le> 32) \<or> n = 133 \<or> n = 160)"

text \<open>\<^verbatim>\<open>s.strip()\<close>: white space removed at both ends.\<close>

definition strip :: "string \<Rightarrow> string" where
  "strip s = rev (dropWhile py_isspace (rev (dropWhile py_isspace s)))"

text \<open>
  \<^verbatim>\<open>s.lower()\<close>: below 256 the cased capitals are A to Z and the Latin-1 capitals
  192 to 222 without the multiplication sign 215; each maps to the code point 32 higher.
\<close>

definition lower_char :: "char \<Rightarrow> char" where
  "lower_char c =
     (let n = (of_char c :: nat)
      in if (65 \<le> n \<and> n \<le> 90) \<or> (192 \<le> n \<and> n \<le> 222 \<and> n \<noteq> 215)
         then char_of (n + 32) else c)"

definition lower :: "string \<Rightarrow> string" where
  "lower s = map lower_char s"

definition startswith :: "string \<Rightarrow> string \<Rightarrow> bool" where
  "startswith s p = (take (length p) s = p)"

definition endswith :: "string \<Rightarrow> string \<Rightarrow> bool" where
  "endswith s p = (length p \<le> length s \<and> drop (length s - length p) s = p)"

text \<open>
  \<^verbatim>\<open>int(s, base)\<close> on a string first replaces, in a string that is not pure ASCII,
  every white space code point from 127 on by a blank and cuts the string at the first
  other code point from 127 on, which becomes a question mark (no code point between 127
  and 255 is a decimal digit).
\<close>

fun to_ascii :: "string \<Rightarrow> string" where
  "to_ascii [] = []"
| "to_ascii (c # cs) =
     (if (of_char c :: nat) < 127 then c # to_ascii cs
      else if py_isspace c then CHR '' '' # to_ascii cs
      else [CHR ''?''])"

definition transform_decimal_and_space :: "string \<Rightarrow> string" where
  "transform_decimal_and_space s =
     (if list_all (\<lambda>c. (of_char c :: nat) < 128) s then s else to_ascii s)"

text \<open>The white space of the C scanner: 9 to 13 and the blank.\<close>

definition c_isspace :: "char \<Rightarrow> bool" where
  "c_isspace c = (let n = (of_char c :: nat) in (9 \<le> n \<and> n \<le> 13) \<or> n = 32)"

text \<open>The value of a character as a digit: 0 to 9, then the letters in either case.\<close>

definition digit_value :: "char \<Rightarrow> nat option" where
  "digit_value c =
     (let n = (of_char c :: nat)
      in if 48 \<le> n \<and> n \<le> 57 then Some (n - 48)
         else if 97 \<le> n \<and> n \<le> 122 then Some (n - 87)
         else if 65 \<le> n \<and> n \<le> 90 then Some (n - 55)
         else None)"

definition digit_of :: "nat \<Rightarrow> char \<Rightarrow> nat option" where
  "digit_of base c =
     (case digit_value c of
        None \<Rightarrow> None
      | Some d \<Rightarrow> if d < base then Some d else None)"

text \<open>
  The digit scan: digits of the base and single underscores between them. It stops at
  the first other character and fails on a doubled or a trailing underscore. The result
  is the digits read and the rest of the string.
\<close>

fun scan_digits :: "nat \<Rightarrow> char \<Rightarrow> string \<Rightarrow> (nat list \<times> string) option" where
  "scan_digits base prev [] = (if prev = CHR ''_'' then None else Some ([], []))"
| "scan_digits base prev (c # cs) =
     (if c = CHR ''_'' then
        (if prev = CHR ''_'' then None else scan_digits base c cs)
      else case digit_of base c of
             Some d \<Rightarrow>
               (case scan_digits base c cs of
                  None \<Rightarrow> None
                | Some (ds, rest) \<Rightarrow> Some (d # ds, rest))
           | None \<Rightarrow> if prev = CHR ''_'' then None else Some ([], c # cs))"

definition digits_value :: "nat \<Rightarrow> nat list \<Rightarrow> nat" where
  "digits_value base ds = foldl (\<lambda>acc d. acc * base + d) 0 ds"

text \<open>
  The scanner behind \<^verbatim>\<open>int(s, base)\<close> for base 10 and base 16: leading white space,
  an optional sign, for base 16 an optional \<^verbatim>\<open>0x\<close> or \<^verbatim>\<open>0X\<close> with one optional
  underscore after it, the digits, trailing white space. \<open>None\<close> is \<^verbatim>\<open>ValueError\<close>.
\<close>

fun skip_sign :: "string \<Rightarrow> int \<times> string" where
  "skip_sign [] = (1, [])"
| "skip_sign (c # cs) =
     (if c = CHR ''+'' then (1, cs)
      else if c = CHR ''-'' then (- 1, cs)
      else (1, c # cs))"

fun skip_underscore :: "string \<Rightarrow> string" where
  "skip_underscore [] = []"
| "skip_underscore (c # cs) = (if c = CHR ''_'' then cs else c # cs)"

fun skip_base_prefix :: "nat \<Rightarrow> string \<Rightarrow> string" where
  "skip_base_prefix base (c # d # cs) =
     (if c = CHR ''0'' \<and> base = 16 \<and> (d = CHR ''x'' \<or> d = CHR ''X'')
      then skip_underscore cs else c # d # cs)"
| "skip_base_prefix base s = s"

definition long_from_string :: "nat \<Rightarrow> string \<Rightarrow> int option" where
  "long_from_string base s =
     (case skip_sign (dropWhile c_isspace s) of
        (sign, s2) \<Rightarrow>
          let s3 = skip_base_prefix base s2
          in if startswith s3 ''_'' then None
             else case scan_digits base (CHR 0x00) s3 of
                    None \<Rightarrow> None
                  | Some (ds, rest) \<Rightarrow>
                      if ds = [] then None
                      else if dropWhile c_isspace rest \<noteq> [] then None
                      else Some (sign * int (digits_value base ds)))"

definition py_int :: "string \<Rightarrow> nat \<Rightarrow> int option" where
  "py_int s base = long_from_string base (transform_decimal_and_space s)"

subsection \<open>\<^verbatim>\<open>parse_hex_int\<close>\<close>

text \<open>
  \<^verbatim>\<open>
  def parse_hex_int(s):
      try:
          s_clean = s.strip().lower()
          if s_clean.startswith("0x"):
              s_clean = s_clean[2:]
          if not s_clean:
              return None
          val = int(s_clean, 16)
          if 0 <= val <= 0x10FFFF:
              return val
      except Exception:
          pass
      return None
  \<close>
\<close>

definition parse_hex_int :: "string \<Rightarrow> int option" where
  "parse_hex_int s =
     (let s_clean = lower (strip s);
          s_clean = (if startswith s_clean ''0x'' then drop 2 s_clean else s_clean)
      in if s_clean = [] then None
         else case py_int s_clean 16 of
                None \<Rightarrow> None
              | Some val \<Rightarrow> if 0 \<le> val \<and> val \<le> 0x10FFFF then Some val else None)"





subsection \<open>Collecting the code points\<close>

text \<open>\<^verbatim>\<open>s.split(",")\<close>: the pieces between the commas, empty pieces included.\<close>

fun split_on :: "char \<Rightarrow> string \<Rightarrow> string \<Rightarrow> string list" where
  "split_on sep acc [] = [rev acc]"
| "split_on sep acc (c # cs) =
     (if c = sep then rev acc # split_on sep [] cs else split_on sep (c # acc) cs)"

definition split_comma :: "string \<Rightarrow> string list" where
  "split_comma s = split_on (CHR '','') [] s"

definition collect_range :: "string \<Rightarrow> string \<Rightarrow> int set \<Rightarrow> int set" where
  "collect_range start_in end_in codepoints =
     (let start_s = strip start_in; end_s = strip end_in
      in if start_s \<noteq> [] \<and> end_s \<noteq> [] then
           (case (parse_hex_int start_s, parse_hex_int end_s) of
              (Some start_cp, Some end_cp) \<Rightarrow>
                if end_cp \<ge> start_cp then fold insert [start_cp..end_cp] codepoints
                else codepoints
            | _ \<Rightarrow> codepoints)
         else codepoints)"

definition add_specific :: "string \<Rightarrow> int set \<Rightarrow> int set" where
  "add_specific part codepoints =
     (case parse_hex_int part of None \<Rightarrow> codepoints | Some cp \<Rightarrow> insert cp codepoints)"

definition collect_specific :: "string \<Rightarrow> int set \<Rightarrow> int set" where
  "collect_specific specific_in codepoints =
     (let specific_s = strip specific_in
      in if specific_s \<noteq> [] then fold add_specific (split_comma specific_s) codepoints
         else codepoints)"

definition collect_codepoints :: "string \<Rightarrow> string \<Rightarrow> string \<Rightarrow> int set" where
  "collect_codepoints start_in end_in specific_in =
     collect_specific specific_in (collect_range start_in end_in {})"

definition final_codepoints :: "string \<Rightarrow> string \<Rightarrow> string \<Rightarrow> int list" where
  "final_codepoints start_in end_in specific_in =
     sorted_list_of_set (collect_codepoints start_in end_in specific_in)"

subsection \<open>Paths\<close>

text \<open>
  \<^verbatim>\<open>os.path.join(a, b)\<close> and \<^verbatim>\<open>os.path.splitext(p)\<close> of \<^verbatim>\<open>posixpath\<close>. The extension
  starts at the last dot of the last path component; a component whose characters before
  that dot are all dots has no extension.
\<close>

definition path_join :: "string \<Rightarrow> string \<Rightarrow> string" where
  "path_join a b =
     (if startswith b ''/'' then b
      else if a = [] \<or> endswith a ''/'' then a @ b
      else a @ ''/'' @ b)"

definition rfind :: "string \<Rightarrow> char \<Rightarrow> int" where
  "rfind s c =
     (if c \<in> set s then int (length s) - 1 - int (length (takeWhile (\<lambda>x. x \<noteq> c) (rev s)))
      else - 1)"

definition splitext :: "string \<Rightarrow> string \<times> string" where
  "splitext p =
     (let sepIndex = rfind p (CHR ''/'');
          dotIndex = rfind p (CHR ''.'')
      in if dotIndex > sepIndex \<and>
            list_ex (\<lambda>ch. ch \<noteq> CHR ''.'')
              (take (nat (dotIndex - (sepIndex + 1))) (drop (nat (sepIndex + 1)) p))
         then (take (nat dotIndex) p, drop (nat dotIndex) p)
         else (p, []))"

definition output_ext :: "string \<Rightarrow> string" where
  "output_ext dest_path =
     (let ext = lower (snd (splitext dest_path))
      in if ext \<noteq> ''.ttf'' \<and> ext \<noteq> ''.otf'' then ''.ttf'' else ext)"

definition output_path :: "string \<Rightarrow> string \<Rightarrow> string" where
  "output_path new_font_name dest_path =
     path_join ''Output'' (new_font_name @ output_ext dest_path)"

text \<open>
  The output path as claim C8 words it: the folder, the new font name and the extension
  of the destination file as it is when it is \<^verbatim>\<open>.ttf\<close> or \<^verbatim>\<open>.otf\<close>.
\<close>

definition claimed_output_path :: "string \<Rightarrow> string \<Rightarrow> string" where
  "claimed_output_path new_font_name dest_path =
     (let ext = snd (splitext dest_path)
      in ''Output/'' @ new_font_name @ (if ext = ''.ttf'' \<or> ext = ''.otf'' then ext else ''.ttf''))"

subsection \<open>Exceptions, exit status and printed lines\<close>

text \<open>
  The exceptions of a run, all of them instances of \<^verbatim>\<open>Exception\<close>: those of the
  Python library calls of the script, and \<open>FontError\<close> with its message for whatever
  the font library raises.
\<close>

datatype exn =
    EOFError | FileExistsError | FileNotFoundError | SameFileError | ZeroDivisionError
  | FontError string

text \<open>
  How a run ends: \<^verbatim>\<open>main\<close> returns, \<^verbatim>\<open>sys.exit(n)\<close> is called, or an exception
  leaves \<^verbatim>\<open>main\<close>, which ends the process with exit code 1.
\<close>

datatype status = Returned | Exit nat | Uncaught exn


text \<open>
  The lines written to standard output, one constructor for each \<^verbatim>\<open>print\<close> of the
  script and one for the prompt of \<^verbatim>\<open>input\<close>. The four lines of the alignment menu are
  one message, as are the two lines of the import guard.
\<close>

datatype 'r msg =
    Prompt string
  | ModulesNotFound
  | Banner | RangeHeader | AddedRange int int | SpecificHeader | Added int | NoCodepoints
  | MetadataHeader | NameEmpty | AuthorEmpty
  | NoFonts string | FoundFont string string | MultipleFonts string | FontChoice nat string
  | ErrorOpening exn
  | ScaleFactor 'r | AlignmentMenu | AlignmentMode string
  | Missing int | Replaced int | GlyphError int exn | Traceback exn
  | Done | Counts nat nat | Saved string

subsection \<open>The font library and Python's float arithmetic\<close>

text \<open>
  FontForge is not part of the script. Its state during a run (the open fonts with their
  selections, the clipboard) is a value of an arbitrary type \<open>'s\<close>, the content of a font
  file is of type \<open>'c\<close>, and the operations the script calls are the fields of a record,
  so that every property below holds for every behaviour of the library. A query returns
  a value or raises and leaves the state as it is; a command returns the new state and
  the exception, if it raised one. The two font objects of the script are named by
  \<open>Src\<close> (\<^verbatim>\<open>src_font\<close>) and \<open>Out\<close> (\<^verbatim>\<open>out_font\<close>).

  The fields, with the calls they stand for (\<open>f\<close> one of the two fonts, \<open>g\<close> the glyph
  \<^verbatim>\<open>out_font[cp]\<close>; looking a glyph up is part of the operation made on it):
  \<^item> \<open>open_font f path content\<close>: \<^verbatim>\<open>fontforge.open(path)\<close>, where \<open>content\<close> is the
    content of the file at the path, if there is one;
  \<^item> \<open>generate f path\<close>: \<^verbatim>\<open>f.generate(path)\<close>, giving the content that is written;
  \<^item> \<open>close f\<close>, \<open>em f\<close>: \<^verbatim>\<open>f.close()\<close>, \<^verbatim>\<open>f.em\<close>;
  \<^item> \<open>set_name a v\<close>: \<^verbatim>\<open>out_font.a = v\<close> for the attributes \<^verbatim>\<open>fontname\<close>,
    \<^verbatim>\<open>familyname\<close>, \<^verbatim>\<open>fullname\<close> and \<^verbatim>\<open>copyright\<close>; \<open>appendSFNTName\<close> as in the
    script;
  \<^item> \<open>contains f cp\<close>: \<^verbatim>\<open>cp in f\<close>; \<open>isWorthOutputting f cp\<close>:
    \<^verbatim>\<open>f[cp].isWorthOutputting()\<close>; \<open>boundingBox f cp\<close>: \<^verbatim>\<open>f[cp].boundingBox()\<close>;
  \<^item> \<open>selection_none f\<close>, \<open>selection_select f cp\<close>, \<open>clear f\<close>, \<open>copy f\<close>,
    \<open>paste f\<close>: \<^verbatim>\<open>f.selection.none()\<close>, \<^verbatim>\<open>f.selection.select(cp)\<close>, \<^verbatim>\<open>f.clear()\<close>,
    \<^verbatim>\<open>f.copy()\<close>, \<^verbatim>\<open>f.paste()\<close>;
  \<^item> \<open>transform_scale cp k\<close>: \<^verbatim>\<open>g.transform(psMat.scale(k))\<close>;
    \<open>transform_translate cp dy\<close>: \<^verbatim>\<open>g.transform(psMat.translate(0, dy))\<close>;
  \<^item> \<open>width f cp\<close>, \<open>left_side_bearing f cp\<close>, \<open>right_side_bearing f cp\<close>: the three
    attributes of \<^verbatim>\<open>f[cp]\<close>; \<open>set_width cp v\<close> and the two others: \<^verbatim>\<open>g.width = v\<close> and
    so on.

  Floating point numbers (the scale factor, the coordinates of a bounding box, the side
  bearings) are values of an arbitrary type \<open>'r\<close>, and the arithmetic Python does on them
  is a second record: \<open>truediv a b\<close> is \<^verbatim>\<open>a / b\<close> on integers with \<open>b\<close> not zero,
  \<open>fzero\<close> the \<^verbatim>\<open>0\<close> of \<^verbatim>\<open>shift_y = 0\<close>, \<open>fsub a b\<close> is \<^verbatim>\<open>a - b\<close>, \<open>mul_int\<close> and
  \<open>fmul\<close> are \<^verbatim>\<open>*\<close> with an integer and with a float on the left, and \<open>int_round x\<close>
  is \<^verbatim>\<open>int(round(x))\<close>, which raises on an infinity or a NaN.
\<close>

datatype font = Src | Out

type_synonym 's cmd = "'s \<Rightarrow> exn option \<times> 's"

record ('s, 'c, 'r) fontforge =
  open_font :: "font \<Rightarrow> string \<Rightarrow> 'c option \<Rightarrow> 's cmd"
  generate :: "font \<Rightarrow> string \<Rightarrow> 's \<Rightarrow> exn + 'c"
  close :: "font \<Rightarrow> 's cmd"
  em :: "font \<Rightarrow> 's \<Rightarrow> int"
  set_name :: "string \<Rightarrow> string \<Rightarrow> 's cmd"
  appendSFNTName :: "string \<Rightarrow> string \<Rightarrow> string \<Rightarrow> 's cmd"
  contains :: "font \<Rightarrow> int \<Rightarrow> 's \<Rightarrow> exn + bool"
  isWorthOutputting :: "font \<Rightarrow> int \<Rightarrow> 's \<Rightarrow> exn + bool"
  boundingBox :: "font \<Rightarrow> int \<Rightarrow> 's \<Rightarrow> exn + ('r \<times> 'r \<times> 'r \<times> 'r)"
  selection_none :: "font \<Rightarrow> 's cmd"
  selection_select :: "font \<Rightarrow> int \<Rightarrow> 's cmd"
  clear :: "font \<Rightarrow> 's cmd"
  copy :: "font \<Rightarrow> 's cmd"
  paste :: "font \<Rightarrow> 's cmd"
  transform_scale :: "int \<Rightarrow> 'r \<Rightarrow> 's cmd"
  transform_translate :: "int \<Rightarrow> 'r \<Rightarrow> 's cmd"
  width :: "font \<Rightarrow> int \<Rightarrow> 's \<Rightarrow> exn + int"
  left_side_bearing :: "font \<Rightarrow> int \<Rightarrow> 's \<Rightarrow> exn + 'r"
  right_side_bearing :: "font \<Rightarrow> int \<Rightarrow> 's \<Rightarrow> exn + 'r"
  set_width :: "int \<Rightarrow> int \<Rightarrow> 's cmd"
  set_left_side_bearing :: "int \<Rightarrow> int \<Rightarrow> 's cmd"
  set_right_side_bearing :: "int \<Rightarrow> int \<Rightarrow> 's cmd"

record 'r pyfloat =
  truediv :: "int \<Rightarrow> int \<Rightarrow> 'r"
  fzero :: 'r
  fsub :: "'r \<Rightarrow> 'r \<Rightarrow> 'r"
  mul_int :: "int \<Rightarrow> 'r \<Rightarrow> 'r"
  fmul :: "'r \<Rightarrow> 'r \<Rightarrow> 'r"
  int_round :: "'r \<Rightarrow> exn + int"

text \<open>One command after another; a query followed by what is done with its value.\<close>

definition seq :: "'s cmd \<Rightarrow> 's cmd \<Rightarrow> 's cmd" where
  "seq a b s = (case a s of (None, s') \<Rightarrow> b s' | (Some e, s') \<Rightarrow> (Some e, s'))"

definition ask :: "('s \<Rightarrow> exn + 'a) \<Rightarrow> ('a \<Rightarrow> 's cmd) \<Rightarrow> 's cmd" where
  "ask q k s = (case q s of Inl e \<Rightarrow> (Some e, s) | Inr a \<Rightarrow> k a s)"

subsection \<open>The transfer loop\<close>

text \<open>
  The state of the loop: the library state, the lines printed, and the two counters.
\<close>

record ('s, 'r) run =
  session :: 's
  printed :: "'r msg list"
  replaced :: nat
  skipped :: nat

text \<open>
  \<^verbatim>\<open>cp not in src_font or not src_font[cp].isWorthOutputting()\<close> is the negation of
  \<open>source_has_glyph\<close>.
\<close>

definition source_has_glyph :: "('s, 'c, 'r) fontforge \<Rightarrow> int \<Rightarrow> 's \<Rightarrow> exn + bool" where
  "source_has_glyph L cp s =
     (case contains L Src cp s of
        Inl e \<Rightarrow> Inl e
      | Inr False \<Rightarrow> Inr False
      | Inr True \<Rightarrow> isWorthOutputting L Src cp s)"

text \<open>
  \<^verbatim>\<open>old_top_y\<close> and \<^verbatim>\<open>old_bot_y\<close>: both \<^verbatim>\<open>None\<close> unless the output font has an
  outputtable glyph at the code point.
\<close>

definition old_box ::
  "('s, 'c, 'r) fontforge \<Rightarrow> int \<Rightarrow> 's \<Rightarrow> exn + ('r option \<times> 'r option)" where
  "old_box L cp s =
     (case contains L Out cp s of
        Inl e \<Rightarrow> Inl e
      | Inr False \<Rightarrow> Inr (None, None)
      | Inr True \<Rightarrow>
          (case isWorthOutputting L Out cp s of
             Inl e \<Rightarrow> Inl e
           | Inr False \<Rightarrow> Inr (None, None)
           | Inr True \<Rightarrow>
               (case boundingBox L Out cp s of
                  Inl e \<Rightarrow> Inl e
                | Inr (x0, y0, x1, y1) \<Rightarrow> Inr (Some y1, Some y0))))"

text \<open>Clear the slot of the output font and paste the glyph of the source font.\<close>

definition paste_glyph :: "('s, 'c, 'r) fontforge \<Rightarrow> int \<Rightarrow> 's cmd" where
  "paste_glyph L cp =
     seq (selection_none L Out)
    (seq (selection_select L Out cp)
    (seq (clear L Out)
    (seq (selection_none L Src)
    (seq (selection_select L Src cp)
    (seq (copy L Src)
    (seq (selection_select L Out cp)
         (paste L Out)))))))"

definition shift_y ::
  "'r pyfloat \<Rightarrow> string \<Rightarrow> 'r option \<Rightarrow> 'r option \<Rightarrow> 'r \<times> 'r \<times> 'r \<times> 'r \<Rightarrow> 'r" where
  "shift_y P align_mode old_top_y old_bot_y new_box =
     (case new_box of
        (x0, new_bot_y, x1, new_top_y) \<Rightarrow>
          if align_mode = ''2'' \<and> old_top_y \<noteq> None then fsub P (the old_top_y) new_top_y
          else if align_mode = ''3'' \<and> old_bot_y \<noteq> None then fsub P (the old_bot_y) new_bot_y
          else fzero P)"

text \<open>The three metrics, each read from the source glyph, scaled, rounded and written.\<close>

definition set_bearings ::
  "('s, 'c, 'r) fontforge \<Rightarrow> 'r pyfloat \<Rightarrow> 'r \<Rightarrow> int \<Rightarrow> 's cmd" where
  "set_bearings L P scale_factor cp =
     ask (width L Src cp) (\<lambda>w.
     ask (\<lambda>s. int_round P (mul_int P w scale_factor)) (\<lambda>new_width.
     seq (set_width L cp new_width)
    (ask (left_side_bearing L Src cp) (\<lambda>l.
     ask (\<lambda>s. int_round P (fmul P l scale_factor)) (\<lambda>new_lsb.
     seq (set_left_side_bearing L cp new_lsb)
    (ask (right_side_bearing L Src cp) (\<lambda>r.
     ask (\<lambda>s. int_round P (fmul P r scale_factor)) (\<lambda>new_rsb.
     set_right_side_bearing L cp new_rsb))))))))"

text \<open>The body of the \<^verbatim>\<open>try\<close> after the check of the source glyph.\<close>

definition replace_glyph ::
  "('s, 'c, 'r) fontforge \<Rightarrow> 'r pyfloat \<Rightarrow> 'r \<Rightarrow> string \<Rightarrow> int \<Rightarrow> 's cmd" where
  "replace_glyph L P scale_factor align_mode cp =
     ask (old_box L cp) (\<lambda>(old_top_y, old_bot_y).
     seq (paste_glyph L cp)
    (seq (transform_scale L cp scale_factor)
    (ask (boundingBox L Out cp) (\<lambda>new_box.
     seq (transform_translate L cp (shift_y P align_mode old_top_y old_bot_y new_box))
         (set_bearings L P scale_factor cp)))))"

text \<open>One iteration of the loop, with its \<^verbatim>\<open>except Exception\<close>.\<close>

definition transfer_step ::
  "('s, 'c, 'r) fontforge \<Rightarrow> 'r pyfloat \<Rightarrow> 'r \<Rightarrow> string \<Rightarrow> int \<Rightarrow> ('s, 'r) run \<Rightarrow> ('s, 'r) run"
  where
  "transfer_step L P scale_factor align_mode cp st =
     (case source_has_glyph L cp (session st) of
        Inl e \<Rightarrow> st\<lparr>printed := printed st @ [GlyphError cp e, Traceback e]\<rparr>
      | Inr False \<Rightarrow>
          st\<lparr>printed := printed st @ [Missing cp], skipped := skipped st + 1\<rparr>
      | Inr True \<Rightarrow>
          (case replace_glyph L P scale_factor align_mode cp (session st) of
             (Some e, s') \<Rightarrow>
               st\<lparr>session := s', printed := printed st @ [GlyphError cp e, Traceback e]\<rparr>
           | (None, s') \<Rightarrow>
               st\<lparr>session := s', printed := printed st @ [Replaced cp],
                  replaced := replaced st + 1\<rparr>))"

fun transfer_loop ::
  "('s, 'c, 'r) fontforge \<Rightarrow> 'r pyfloat \<Rightarrow> 'r \<Rightarrow> string \<Rightarrow> int list \<Rightarrow> ('s, 'r) run \<Rightarrow>
   ('s, 'r) run" where
  "transfer_loop L P scale_factor align_mode [] st = st"
| "transfer_loop L P scale_factor align_mode (cp # cps) st =
     transfer_loop L P scale_factor align_mode cps (transfer_step L P scale_factor align_mode cp st)"

subsection \<open>The world of a run\<close>

text \<open>
  What the script reads and writes outside the font library: the lines waiting on
  standard input, the lines printed, the folders (what \<^verbatim>\<open>os.listdir\<close> gives for a
  path, \<open>None\<close> when the path is no folder), and the files. A path names a file through
  \<open>resolve\<close>, so that two paths may name the same file. The state of the font library is
  the last component.
\<close>

record ('s, 'c, 'loc, 'r) world =
  stdin :: "string list"
  stdout :: "'r msg list"
  dirs :: "string \<Rightarrow> string list option"
  resolve :: "string \<Rightarrow> 'loc"
  files :: "'loc \<Rightarrow> 'c option"
  lib_state :: 's

text \<open>
  A part of the script maps a world to a new world and either a value or the status the
  process ends with.
\<close>

definition bind ::
  "('w \<Rightarrow> (status + 'a) \<times> 'w) \<Rightarrow> ('a \<Rightarrow> 'w \<Rightarrow> (status + 'b) \<times> 'w) \<Rightarrow>
   'w \<Rightarrow> (status + 'b) \<times> 'w" where
  "bind m k w = (case m w of (Inl st, w') \<Rightarrow> (Inl st, w') | (Inr a, w') \<Rightarrow> k a w')"

definition say :: "'r msg \<Rightarrow> ('s, 'c, 'loc, 'r) world \<Rightarrow> ('s, 'c, 'loc, 'r) world" where
  "say m w = w\<lparr>stdout := stdout w @ [m]\<rparr>"

definition say_all ::
  "'r msg list \<Rightarrow> ('s, 'c, 'loc, 'r) world \<Rightarrow> ('s, 'c, 'loc, 'r) world" where
  "say_all ms w = w\<lparr>stdout := stdout w @ ms\<rparr>"

text \<open>\<^verbatim>\<open>input(prompt)\<close>: the prompt is printed, the next line is read; at the end of the
  input \<^verbatim>\<open>EOFError\<close> is raised, which nothing catches.\<close>

definition input ::
  "string \<Rightarrow> ('s, 'c, 'loc, 'r) world \<Rightarrow> (status + string) \<times> ('s, 'c, 'loc, 'r) world" where
  "input p w =
     (case stdin w of
        [] \<Rightarrow> (Inl (Uncaught EOFError), say (Prompt p) w)
      | l # ls \<Rightarrow> (Inr l, (say (Prompt p) w)\<lparr>stdin := ls\<rparr>))"

text \<open>\<^verbatim>\<open>os.makedirs(path, exist_ok=True)\<close>.\<close>

definition makedirs ::
  "string \<Rightarrow> ('s, 'c, 'loc, 'r) world \<Rightarrow> (status + unit) \<times> ('s, 'c, 'loc, 'r) world" where
  "makedirs path w =
     (if files w (resolve w path) \<noteq> None then (Inl (Uncaught FileExistsError), w)
      else (Inr (),
            w\<lparr>dirs := (dirs w)(path := Some (case dirs w path of None \<Rightarrow> [] | Some l \<Rightarrow> l))\<rparr>))"


text \<open>A command of the library outside any \<^verbatim>\<open>try\<close>: its exception ends the run.\<close>

definition lib_cmd ::
  "'s cmd \<Rightarrow> ('s, 'c, 'loc, 'r) world \<Rightarrow> (status + unit) \<times> ('s, 'c, 'loc, 'r) world" where
  "lib_cmd c w =
     (case c (lib_state w) of
        (None, s') \<Rightarrow> (Inr (), w\<lparr>lib_state := s'\<rparr>)
      | (Some e, s') \<Rightarrow> (Inl (Uncaught e), w\<lparr>lib_state := s'\<rparr>))"

subsection \<open>Choosing the font files\<close>





subsection \<open>Reading the code points and the metadata\<close>

definition range_messages :: "string \<Rightarrow> string \<Rightarrow> 'r msg list" where
  "range_messages start_in end_in =
     (let start_s = strip start_in; end_s = strip end_in
      in if start_s \<noteq> [] \<and> end_s \<noteq> [] then
           (case (parse_hex_int start_s, parse_hex_int end_s) of
              (Some start_cp, Some end_cp) \<Rightarrow>
                if end_cp \<ge> start_cp then [AddedRange start_cp end_cp] else []
            | _ \<Rightarrow> [])
         else [])"

definition specific_messages :: "string \<Rightarrow> 'r msg list" where
  "specific_messages specific_in =
     (let specific_s = strip specific_in
      in if specific_s \<noteq> [] then
           concat (map (\<lambda>part. case parse_hex_int part of None \<Rightarrow> [] | Some cp \<Rightarrow> [Added cp])
             (split_comma specific_s))
         else [])"

definition read_codepoints ::
  "('s, 'c, 'loc, 'r) world \<Rightarrow> (status + int list) \<times> ('s, 'c, 'loc, 'r) world" where
  "read_codepoints =
     bind (\<lambda>w. makedirs ''Output'' (say Banner w)) (\<lambda>_.
     bind (\<lambda>w. input ''Start Unicode (hex): '' (say RangeHeader w)) (\<lambda>start_in.
     bind (input ''End Unicode (hex): '') (\<lambda>end_in.
     bind (\<lambda>w. input ''Specific Unicodes (comma hex): ''
                 (say SpecificHeader (say_all (range_messages start_in end_in) w)))
       (\<lambda>specific_in w.
          let w' = say_all (specific_messages specific_in) w;
              codepoints = collect_codepoints start_in end_in specific_in
          in if codepoints = {} then (Inl (Exit 0), say NoCodepoints w')
             else (Inr (final_codepoints start_in end_in specific_in), w')))))"

text \<open>
  \<^verbatim>\<open>while True\<close> around an \<^verbatim>\<open>input\<close> that must not be empty: the lines read, what is
  printed, and the answer (\<open>None\<close> when the input ends first).
\<close>

fun prompt_required ::
  "string \<Rightarrow> 'r msg \<Rightarrow> string list \<Rightarrow> string option \<times> string list \<times> 'r msg list" where
  "prompt_required p err [] = (None, [], [Prompt p])"
| "prompt_required p err (l # ls) =
     (if strip l \<noteq> [] then (Some (strip l), ls, [Prompt p])
      else case prompt_required p err ls of
             (r, rest, ms) \<Rightarrow> (r, rest, Prompt p # err # ms))"

definition input_required ::
  "string \<Rightarrow> 'r msg \<Rightarrow> ('s, 'c, 'loc, 'r) world \<Rightarrow>
   (status + string) \<times> ('s, 'c, 'loc, 'r) world" where
  "input_required p err w =
     (case prompt_required p err (stdin w) of
        (None, rest, ms) \<Rightarrow>
          (Inl (Uncaught EOFError), w\<lparr>stdin := rest, stdout := stdout w @ ms\<rparr>)
      | (Some v, rest, ms) \<Rightarrow> (Inr v, w\<lparr>stdin := rest, stdout := stdout w @ ms\<rparr>))"

definition default_license :: "string \<Rightarrow> string" where
  "default_license author_name = CHR 0xA9 # '' '' @ author_name @ '' All rights reserved''"

definition read_metadata ::
  "('s, 'c, 'loc, 'r) world \<Rightarrow>
   (status + string \<times> string \<times> string) \<times> ('s, 'c, 'loc, 'r) world" where
  "read_metadata =
     bind (\<lambda>w. input_required ''Enter new font name: '' NameEmpty (say MetadataHeader w))
       (\<lambda>new_font_name.
     bind (input_required ''Enter author name: '' AuthorEmpty) (\<lambda>author_name.
     bind (input ''Enter license text (optional): '') (\<lambda>license_in w.
       (Inr (new_font_name, author_name,
             if strip license_in = [] then default_license author_name else strip license_in),
        w))))"

subsection \<open>From the chosen files to the saved font\<close>





definition loop_start :: "('s, 'c, 'loc, 'r) world \<Rightarrow> ('s, 'r) run" where
  "loop_start w = \<lparr>session = lib_state w, printed = stdout w, replaced = 0, skipped = 0\<rparr>"

definition run_loop ::
  "('s, 'c, 'r) fontforge \<Rightarrow> 'r pyfloat \<Rightarrow> 'r \<Rightarrow> string \<Rightarrow> int list \<Rightarrow>
   ('s, 'c, 'loc, 'r) world \<Rightarrow> (status + nat \<times> nat) \<times> ('s, 'c, 'loc, 'r) world" where
  "run_loop L P scale_factor align_mode cps w =
     (let st = transfer_loop L P scale_factor align_mode cps (loop_start w)
      in (Inr (replaced st, skipped st), w\<lparr>stdout := printed st, lib_state := session st\<rparr>))"

text \<open>\<^verbatim>\<open>out_font.generate(output_path)\<close>, the final report, and the two \<^verbatim>\<open>close\<close>.\<close>

definition save_and_close ::
  "('s, 'c, 'r) fontforge \<Rightarrow> string \<Rightarrow> nat \<Rightarrow> nat \<Rightarrow> ('s, 'c, 'loc, 'r) world \<Rightarrow>
   (status + unit) \<times> ('s, 'c, 'loc, 'r) world" where
  "save_and_close L out_path n_replaced n_skipped w =
     (case generate L Out out_path (lib_state w) of
        Inl e \<Rightarrow> (Inl (Uncaught e), w)
      | Inr c \<Rightarrow>
          lib_cmd (seq (close L Src) (close L Out))
            (say_all [Done, Counts n_replaced n_skipped, Saved out_path]
               (w\<lparr>files := (files w)(resolve w out_path := Some c)\<rparr>)))"

definition transfer_and_save ::
  "('s, 'c, 'r) fontforge \<Rightarrow> 'r pyfloat \<Rightarrow> 'r \<Rightarrow> string \<Rightarrow> int list \<Rightarrow> string \<Rightarrow>
   ('s, 'c, 'loc, 'r) world \<Rightarrow> (status + unit) \<times> ('s, 'c, 'loc, 'r) world" where
  "transfer_and_save L P scale_factor align_mode cps out_path =
     bind (run_loop L P scale_factor align_mode cps) (\<lambda>(n_replaced, n_skipped).
       save_and_close L out_path n_replaced n_skipped)"





subsection \<open>A small font library\<close>

text \<open>
  One library to run the script on: a font is its em size and its glyphs, a glyph its
  vertical extent and its three metrics, and all numbers are integers. It serves as the
  concrete input of the examples below.
\<close>

record toy_glyph =
  g_bot :: int
  g_top :: int
  g_width :: int
  g_lsb :: int
  g_rsb :: int

record toy_font =
  f_em :: int
  f_glyphs :: "int \<Rightarrow> toy_glyph option"

record toy_state =
  t_src :: toy_font
  t_out :: toy_font
  t_sel_src :: "int option"
  t_sel_out :: "int option"
  t_clip :: "toy_glyph option"

definition toy_get :: "font \<Rightarrow> toy_state \<Rightarrow> toy_font" where
  "toy_get f s = (case f of Src \<Rightarrow> t_src s | Out \<Rightarrow> t_out s)"

definition toy_put :: "font \<Rightarrow> toy_font \<Rightarrow> toy_state \<Rightarrow> toy_state" where
  "toy_put f x s = (case f of Src \<Rightarrow> s\<lparr>t_src := x\<rparr> | Out \<Rightarrow> s\<lparr>t_out := x\<rparr>)"

definition toy_sel :: "font \<Rightarrow> toy_state \<Rightarrow> int option" where
  "toy_sel f s = (case f of Src \<Rightarrow> t_sel_src s | Out \<Rightarrow> t_sel_out s)"

definition toy_select :: "font \<Rightarrow> int option \<Rightarrow> toy_state cmd" where
  "toy_select f x s = (None, case f of Src \<Rightarrow> s\<lparr>t_sel_src := x\<rparr> | Out \<Rightarrow> s\<lparr>t_sel_out := x\<rparr>)"

definition toy_glyph_at :: "font \<Rightarrow> int \<Rightarrow> toy_state \<Rightarrow> exn + toy_glyph" where
  "toy_glyph_at f cp s =
     (case f_glyphs (toy_get f s) cp of
        None \<Rightarrow> Inl (FontError ''No such glyph'')
      | Some g \<Rightarrow> Inr g)"

definition toy_set_glyph :: "font \<Rightarrow> int \<Rightarrow> toy_glyph option \<Rightarrow> toy_state \<Rightarrow> toy_state" where
  "toy_set_glyph f cp g s =
     toy_put f ((toy_get f s)\<lparr>f_glyphs := (f_glyphs (toy_get f s))(cp := g)\<rparr>) s"

definition toy_change :: "int \<Rightarrow> (toy_glyph \<Rightarrow> toy_glyph) \<Rightarrow> toy_state cmd" where
  "toy_change cp h s =
     (case toy_glyph_at Out cp s of
        Inl e \<Rightarrow> (Some e, s)
      | Inr g \<Rightarrow> (None, toy_set_glyph Out cp (Some (h g)) s))"

definition toy_read :: "(toy_glyph \<Rightarrow> 'a) \<Rightarrow> font \<Rightarrow> int \<Rightarrow> toy_state \<Rightarrow> exn + 'a" where
  "toy_read h f cp s = (case toy_glyph_at f cp s of Inl e \<Rightarrow> Inl e | Inr g \<Rightarrow> Inr (h g))"

definition toy_lib :: "(toy_state, toy_font, int) fontforge" where
  "toy_lib =
     \<lparr>open_font = (\<lambda>f path content s.
        case content of
          None \<Rightarrow> (Some (FontError ''No such file''), s)
        | Some c \<Rightarrow> (None, toy_put f c s)),
      generate = (\<lambda>f path s. Inr (toy_get f s)),
      close = (\<lambda>f s. (None, s)),
      em = (\<lambda>f s. f_em (toy_get f s)),
      set_name = (\<lambda>k v s. (None, s)),
      appendSFNTName = (\<lambda>lang k v s. (None, s)),
      contains = (\<lambda>f cp s. Inr (f_glyphs (toy_get f s) cp \<noteq> None)),
      isWorthOutputting = toy_read (\<lambda>g. True),
      boundingBox = toy_read (\<lambda>g. (g_lsb g, g_bot g, g_width g - g_rsb g, g_top g)),
      selection_none = (\<lambda>f. toy_select f None),
      selection_select = (\<lambda>f cp. toy_select f (Some cp)),
      clear = (\<lambda>f s.
        (None, case toy_sel f s of None \<Rightarrow> s | Some cp \<Rightarrow> toy_set_glyph f cp None s)),
      copy = (\<lambda>f s.
        (None, s\<lparr>t_clip := (case toy_sel f s of
                                None \<Rightarrow> None
                              | Some cp \<Rightarrow> f_glyphs (toy_get f s) cp)\<rparr>)),
      paste = (\<lambda>f s.
        case (toy_sel f s, t_clip s) of
          (Some cp, Some g) \<Rightarrow> (None, toy_set_glyph f cp (Some g) s)
        | _ \<Rightarrow> (Some (FontError ''Nothing to paste''), s)),
      transform_scale = (\<lambda>cp k.
        toy_change cp (\<lambda>g. g\<lparr>g_bot := g_bot g * k, g_top := g_top g * k\<rparr>)),
      transform_translate = (\<lambda>cp dy.
        toy_change cp (\<lambda>g. g\<lparr>g_bot := g_bot g + dy, g_top := g_top g + dy\<rparr>)),
      width = toy_read g_width,
      left_side_bearing = toy_read g_lsb,
      right_side_bearing = toy_read g_rsb,
      set_width = (\<lambda>cp v. toy_change cp (\<lambda>g. g\<lparr>g_width := v\<rparr>)),
      set_left_side_bearing = (\<lambda>cp v. toy_change cp (\<lambda>g. g\<lparr>g_lsb := v\<rparr>)),
      set_right_side_bearing = (\<lambda>cp v. toy_change cp (\<lambda>g. g\<lparr>g_rsb := v\<rparr>))\<rparr>"

definition toy_float :: "int pyfloat" where
  "toy_float =
     \<lparr>truediv = (\<lambda>a b. a div b), fzero = 0, fsub = (\<lambda>a b. a - b),
      mul_int = (\<lambda>a b. a * b), fmul = (\<lambda>a b. a * b), int_round = Inr\<rparr>"

text \<open>
  The source font has em size 500 and a glyph at U+0041 with top 325, and none at U+0044;
  the destination has em size 1000 and glyphs at both, with top 700.
\<close>

definition toy_source :: toy_font where
  "toy_source =
     \<lparr>f_em = 500,
      f_glyphs = (\<lambda>cp. if cp = 0x41
        then Some \<lparr>g_bot = 0, g_top = 325, g_width = 300, g_lsb = 20, g_rsb = 30\<rparr>
        else None)\<rparr>"

definition toy_dest :: toy_font where
  "toy_dest =
     \<lparr>f_em = 1000,
      f_glyphs = (\<lambda>cp. if cp = 0x41 \<or> cp = 0x44
        then Some \<lparr>g_bot = - 10, g_top = 700, g_width = 500, g_lsb = 30, g_rsb = 50\<rparr>
        else None)\<rparr>"

definition toy_empty :: toy_font where
  "toy_empty = \<lparr>f_em = 0, f_glyphs = (\<lambda>cp. None)\<rparr>"

definition toy_session :: toy_state where
  "toy_session =
     \<lparr>t_src = toy_source, t_out = toy_dest, t_sel_src = None, t_sel_out = None,
      t_clip = None\<rparr>"

text \<open>
  A world with one font file in each folder, the files named by their paths, and the
  lines typed by the user.
\<close>

definition toy_world :: "string list \<Rightarrow> (toy_state, toy_font, string, int) world" where
  "toy_world lines =
     \<lparr>stdin = lines, stdout = [],
      dirs = (\<lambda>p. if p = ''Source'' then Some [''src.ttf'']
                   else if p = ''Destination'' then Some [''dest.otf'', ''notes.txt'']
                   else None),
      resolve = (\<lambda>p. p),
      files = (\<lambda>p. if p = ''Source/src.ttf'' then Some toy_source
                    else if p = ''Destination/dest.otf'' then Some toy_dest
                    else None),
      lib_state =
        \<lparr>t_src = toy_empty, t_out = toy_empty, t_sel_src = None, t_sel_out = None,
         t_clip = None\<rparr>\<rparr>"

text \<open>The world after the two fonts have been opened.\<close>

definition toy_opened :: "(toy_state, toy_font, string, int) world" where
  "toy_opened = (toy_world [])\<lparr>lib_state := toy_session\<rparr>"


text \<open>The same library with a \<^verbatim>\<open>paste\<close> that raises, and with an \<^verbatim>\<open>open\<close> that raises.\<close>

definition toy_lib_no_paste :: "(toy_state, toy_font, int) fontforge" where
  "toy_lib_no_paste = toy_lib\<lparr>paste := (\<lambda>f s. (Some (FontError ''paste failed''), s))\<rparr>"


subsection \<open>Notions used to state the properties of a run\<close>

text \<open>
  A part of the script keeps the files and the fonts when it leaves the files, the naming
  of files by paths and the state of the font library as they are. It writes only a given
  path when every other file stays as it is and a file at that path stays a file. It
  never exits with code 1 when it only returns or ends by another status.
\<close>

definition unchanged :: "('s, 'c, 'loc, 'r) world \<Rightarrow> ('s, 'c, 'loc, 'r) world \<Rightarrow> bool" where
  "unchanged w w' =
     (files w' = files w \<and> resolve w' = resolve w \<and> lib_state w' = lib_state w)"


definition writes_only ::
  "string \<Rightarrow> ('s, 'c, 'loc, 'r) world \<Rightarrow> ('s, 'c, 'loc, 'r) world \<Rightarrow> bool" where
  "writes_only out w w' =
     (resolve w' = resolve w \<and> (\<forall>loc. loc \<noteq> resolve w out \<longrightarrow> files w' loc = files w loc) \<and>
      (files w (resolve w out) \<noteq> None \<longrightarrow> files w' (resolve w out) \<noteq> None))"

definition no_exit_1 ::
  "(('s, 'c, 'loc, 'r) world \<Rightarrow> (status + 'a) \<times> ('s, 'c, 'loc, 'r) world) \<Rightarrow> bool" where
  "no_exit_1 m = (\<forall>w. fst (m w) \<noteq> Inl (Exit 1))"

text \<open>The number of code points reported as failed in the printed lines.\<close>

fun glyph_errors :: "'r msg list \<Rightarrow> nat" where
  "glyph_errors [] = 0"
| "glyph_errors (GlyphError cp e # ms) = Suc (glyph_errors ms)"
| "glyph_errors (m # ms) = glyph_errors ms"


section \<open>Properties\<close>

subsection \<open>\<^verbatim>\<open>parse_hex_int\<close>\<close>


lemma char_eq_code: "(c = d) = ((of_char c :: nat) = of_char d)"
  by simp










lemma strip_core:
  assumes "list_all py_isspace ws1" and "list_all py_isspace ws2"
    and "core \<noteq> []" and "\<not> py_isspace (hd core)" and "\<not> py_isspace (last core)"
  shows "strip (ws1 @ core @ ws2) = core"
proof -
  have a: "dropWhile py_isspace (ws1 @ core @ ws2) = core @ ws2"
    using assms(1,3,4) by (induction ws1) (auto simp: neq_Nil_conv)
  have b: "dropWhile py_isspace (rev ws2 @ rev core) = rev core"
    using assms(2,3,5)
  proof (induction ws2 rule: rev_induct)
    case Nil
    then show ?case by (cases core rule: rev_cases) auto
  next
    case (snoc x xs)
    then show ?case by simp
  qed
  show ?thesis by (simp add: strip_def a b)
qed






















subsection \<open>The code points of a run\<close>

lemma dropWhile_hd: "dropWhile P xs \<noteq> [] \<Longrightarrow> \<not> P (hd (dropWhile P xs))"
  by (metis hd_dropWhile)

lemma strip_ends:
  assumes "strip s \<noteq> []"
  shows "\<not> py_isspace (hd (strip s))" and "\<not> py_isspace (last (strip s))"
proof -
  let ?t = "dropWhile py_isspace s"
  let ?u = "dropWhile py_isspace (rev ?t)"
  have u: "?u \<noteq> []" using assms by (simp add: strip_def)
  have t: "?t \<noteq> []"
  proof
    assume a: "?t = []"
    have "?u = dropWhile py_isspace (rev [])" by (simp only: a)
    with u show False by simp
  qed
  have "\<not> py_isspace (hd ?u)" using u by (rule dropWhile_hd)
  then show "\<not> py_isspace (last (strip s))"
    using u by (simp add: strip_def last_rev)
  have "last ?u = last (rev ?t)"
    using u by (metis last_appendR takeWhile_dropWhile_id)
  then have "hd (strip s) = hd ?t"
    using u t by (simp add: strip_def hd_rev last_rev)
  then show "\<not> py_isspace (hd (strip s))"
    using dropWhile_hd [OF t] by simp
qed

lemma strip_strip: "strip (strip s) = strip s"
proof (cases "strip s = []")
  case True
  have "strip [] = []" by (simp add: strip_def)
  with True show ?thesis by simp
next
  case False
  from strip_core [of "[]" "[]" "strip s"] strip_ends [OF False] False
  show ?thesis by simp
qed

lemma parse_hex_int_strip: "parse_hex_int (strip s) = parse_hex_int s"
  by (simp add: parse_hex_int_def strip_strip)

lemma parse_hex_int_blank: "strip s = [] \<Longrightarrow> parse_hex_int s = None"
  by (simp add: parse_hex_int_def lower_def startswith_def)

lemma fold_insert_set: "fold insert xs A = set xs \<union> A"
  by (induction xs arbitrary: A) auto

lemma collect_range_eq:
  "collect_range start_in end_in codepoints =
     codepoints \<union>
       (case (parse_hex_int start_in, parse_hex_int end_in) of
          (Some start_cp, Some end_cp) \<Rightarrow>
            if end_cp \<ge> start_cp then {start_cp..end_cp} else {}
        | _ \<Rightarrow> {})"
proof (cases "strip start_in \<noteq> [] \<and> strip end_in \<noteq> []")
  case True
  then show ?thesis
    by (auto simp: collect_range_def parse_hex_int_strip fold_insert_set
        split: option.splits)
next
  case False
  then have "parse_hex_int start_in = None \<or> parse_hex_int end_in = None"
    using parse_hex_int_blank [of start_in] parse_hex_int_blank [of end_in] by auto
  with False show ?thesis
    by (auto simp: collect_range_def split: option.splits)
qed

text \<open>
  Claim C6. The range adds to the code point set exactly the integers from the start to
  the end code point, both included, when both inputs parse and the end is not below the
  start; it adds nothing when the end is below the start or an input does not parse (an
  input that is empty or blank does not parse).
\<close>

theorem collect_range_result:
  "collect_range start_in end_in codepoints =
     codepoints \<union>
       (case (parse_hex_int start_in, parse_hex_int end_in) of
          (Some start_cp, Some end_cp) \<Rightarrow>
            if end_cp \<ge> start_cp then {start_cp..end_cp} else {}
        | _ \<Rightarrow> {})"
  by (rule collect_range_eq)

theorem collect_range_result_witness:
  "parse_hex_int ''0041'' = Some 0x41 \<and> parse_hex_int ''0043'' = Some 0x43 \<and>
   collect_range ''0041'' ''0043'' {} = {0x41..0x43} \<and>
   collect_range ''0043'' ''0041'' {} = {} \<and>
   collect_range ''0041'' ''zz'' {} = {}"
proof -
  have p: "parse_hex_int ''0041'' = Some 0x41" "parse_hex_int ''0043'' = Some 0x43"
    "parse_hex_int ''zz'' = None"
    by code_simp+
  show ?thesis
    using p collect_range_result [of "''0041''" "''0043''" "{}"]
      collect_range_result [of "''0043''" "''0041''" "{}"]
      collect_range_result [of "''0041''" "''zz''" "{}"]
    by simp
qed

lemma finite_collect_range: "finite A \<Longrightarrow> finite (collect_range a b A)"
  by (simp add: collect_range_eq split: option.splits)

lemma finite_fold_add_specific: "finite A \<Longrightarrow> finite (fold add_specific ps A)"
  by (induction ps arbitrary: A) (simp_all add: add_specific_def split: option.splits)

lemma finite_collect_codepoints: "finite (collect_codepoints a b c)"
  by (simp add: collect_codepoints_def collect_specific_def Let_def finite_collect_range
      finite_fold_add_specific)

text \<open>
  Claim C7. For all three inputs, the list of code points handed to the transfer loop is
  strictly ascending, has no duplicates, and holds exactly the collected code points.
\<close>

theorem final_codepoints_ascending:
  "sorted_wrt (<) (final_codepoints start_in end_in specific_in) \<and>
   distinct (final_codepoints start_in end_in specific_in) \<and>
   set (final_codepoints start_in end_in specific_in) =
     collect_codepoints start_in end_in specific_in"
  by (simp add: final_codepoints_def finite_collect_codepoints)

theorem final_codepoints_ascending_witness:
  "final_codepoints ''0041'' ''0043'' ''42, 0x24,41'' = [0x24, 0x41, 0x42, 0x43] \<and>
   sorted_wrt (<) (final_codepoints ''0041'' ''0043'' ''42, 0x24,41'') \<and>
   distinct (final_codepoints ''0041'' ''0043'' ''42, 0x24,41'')"
proof -
  have "final_codepoints ''0041'' ''0043'' ''42, 0x24,41'' = [0x24, 0x41, 0x42, 0x43]"
    by code_simp
  then show ?thesis
    using final_codepoints_ascending [of "''0041''" "''0043''" "''42, 0x24,41''"] by simp
qed

subsection \<open>The output path\<close>

lemma rfind_last: "c \<notin> set ys \<Longrightarrow> rfind (xs @ c # ys) c = int (length xs)"
proof -
  assume c: "c \<notin> set ys"
  have "takeWhile (\<lambda>x. x \<noteq> c) (as @ c # bs) = as" if "c \<notin> set as" for as bs
    using that by (induction as) auto
  from this [of "rev ys" "rev xs"] c
  have "takeWhile (\<lambda>x. x \<noteq> c) (rev ys @ c # rev xs) = rev ys" by simp
  then show ?thesis by (simp add: rfind_def)
qed

lemma splitext_file:
  assumes "CHR ''/'' \<notin> set base" and "CHR ''/'' \<notin> set e" and "CHR ''.'' \<notin> set e"
    and "list_ex (\<lambda>ch. ch \<noteq> CHR ''.'') base"
  shows "splitext (dir @ ''/'' @ base @ ''.'' @ e) = (dir @ ''/'' @ base, ''.'' @ e)"
proof -
  let ?p = "dir @ ''/'' @ base @ ''.'' @ e"
  have sep: "rfind ?p (CHR ''/'') = int (length dir)"
    using rfind_last [of "CHR ''/''" "base @ ''.'' @ e" dir] assms(1,2) by simp
  have dot: "rfind ?p (CHR ''.'') = int (length dir) + 1 + int (length base)"
    using rfind_last [of "CHR ''.''" e "dir @ ''/'' @ base"] assms(3) by simp
  have slice: "take (length base) (drop (Suc (length dir)) ?p) = base"
    by simp
  have n1: "nat (int (length dir) + 1 + int (length base) - (int (length dir) + 1)) = length base"
    by simp
  have n2: "nat (int (length dir) + 1) = Suc (length dir)" by simp
  have n3: "nat (int (length dir) + 1 + int (length base)) = length (dir @ ''/'' @ base)"
    by simp
  show ?thesis
    unfolding splitext_def sep dot Let_def n1 n2 n3 slice
    using assms(4) by simp
qed

lemma path_join_relative:
  "\<not> startswith b ''/'' \<Longrightarrow> a \<noteq> [] \<Longrightarrow> \<not> endswith a ''/'' \<Longrightarrow> path_join a b = a @ ''/'' @ b"
  by (simp add: path_join_def)

lemma output_ext_dot: "startswith (output_ext p) ''.''"
  by (auto simp: output_ext_def Let_def startswith_def)

lemma startswith_append:
  "startswith (n @ x) ''/'' = (if n = [] then startswith x ''/'' else startswith n ''/'')"
  by (cases n) (simp_all add: startswith_def)

lemma startswith_slash_mem: "startswith s ''/'' \<Longrightarrow> CHR ''/'' \<in> set s"
  by (cases s) (auto simp: startswith_def)

lemma lower_append: "lower (a @ b) = lower a @ lower b"
  by (simp add: lower_def)

lemma lower_dot: "lower ''.'' = ''.''"
  by code_simp

text \<open>
  Claim C8, as amended. When the new font name does not start with a slash, the output
  path is \<^verbatim>\<open>Output/\<close>, the new font name and the extension. For a destination file
  in the destination folder whose name is a base with a character other than a dot,
  a dot and a suffix without dots, the extension is the dot and the suffix in lower case
  when that suffix in lower case is \<^verbatim>\<open>ttf\<close> or \<^verbatim>\<open>otf\<close>, and \<^verbatim>\<open>.ttf\<close> otherwise.
\<close>

theorem output_path_result:
  "(\<not> startswith new_font_name ''/'' \<longrightarrow>
      output_path new_font_name dest_path = ''Output/'' @ new_font_name @ output_ext dest_path) \<and>
   (CHR ''/'' \<notin> set fname \<and> fname = base @ ''.'' @ e \<and> CHR ''.'' \<notin> set e \<and>
    list_ex (\<lambda>ch. ch \<noteq> CHR ''.'') base \<longrightarrow>
      output_ext (path_join ''Destination'' fname) =
        (if lower e = ''ttf'' \<or> lower e = ''otf'' then ''.'' @ lower e else ''.ttf''))"
proof (intro conjI impI)
  assume n: "\<not> startswith new_font_name ''/''"
  have "\<not> startswith (new_font_name @ output_ext dest_path) ''/''"
    using n output_ext_dot [of dest_path]
    by (cases new_font_name) (auto simp: startswith_def)
  then show "output_path new_font_name dest_path =
      ''Output/'' @ new_font_name @ output_ext dest_path"
    by (simp add: output_path_def path_join_def endswith_def)
next
  assume a: "CHR ''/'' \<notin> set fname \<and> fname = base @ ''.'' @ e \<and> CHR ''.'' \<notin> set e \<and>
    list_ex (\<lambda>ch. ch \<noteq> CHR ''.'') base"
  then have f: "fname = base @ ''.'' @ e" and b: "CHR ''/'' \<notin> set base" "CHR ''/'' \<notin> set e"
    "CHR ''.'' \<notin> set e" "list_ex (\<lambda>ch. ch \<noteq> CHR ''.'') base"
    by auto
  have "\<not> startswith fname ''/''"
    using a startswith_slash_mem [of fname] by blast
  then have j: "path_join ''Destination'' fname = ''Destination'' @ ''/'' @ base @ ''.'' @ e"
    by (simp add: path_join_def endswith_def f)
  have ext: "snd (splitext (path_join ''Destination'' fname)) = ''.'' @ e"
    unfolding j using splitext_file [OF b, of "''Destination''"] by simp
  show "output_ext (path_join ''Destination'' fname) =
        (if lower e = ''ttf'' \<or> lower e = ''otf'' then ''.'' @ lower e else ''.ttf'')"
    unfolding output_ext_def ext Let_def lower_append lower_dot by auto
qed

theorem output_path_result_witness:
  "\<not> startswith ''MyFont'' ''/'' \<and> CHR ''/'' \<notin> set ''dest.otf'' \<and>
   ''dest.otf'' = ''dest'' @ ''.'' @ ''otf'' \<and> CHR ''.'' \<notin> set ''otf'' \<and>
   list_ex (\<lambda>ch. ch \<noteq> CHR ''.'') ''dest'' \<and>
   output_path ''MyFont'' (path_join ''Destination'' ''dest.otf'') = ''Output/MyFont.otf''"
proof -
  have a: "\<not> startswith ''MyFont'' ''/''"
    by code_simp
  have l: "lower ''otf'' = ''otf''"
    by code_simp
  have b: "CHR ''/'' \<notin> set ''dest.otf'' \<and> ''dest.otf'' = ''dest'' @ ''.'' @ ''otf'' \<and>
    CHR ''.'' \<notin> set ''otf'' \<and> list_ex (\<lambda>ch. ch \<noteq> CHR ''.'') ''dest''"
    by simp
  note r = output_path_result [of "''MyFont''" "path_join ''Destination'' ''dest.otf''"
        "''dest.otf''" "''dest''" "''otf''"]
  have p: "output_path ''MyFont'' (path_join ''Destination'' ''dest.otf'') =
      ''Output/'' @ ''MyFont'' @ output_ext (path_join ''Destination'' ''dest.otf'')"
    using r a by blast
  have e: "output_ext (path_join ''Destination'' ''dest.otf'') =
      (if lower ''otf'' = ''ttf'' \<or> lower ''otf'' = ''otf'' then ''.'' @ lower ''otf''
       else ''.ttf'')"
    using r b by blast
  have "output_path ''MyFont'' (path_join ''Destination'' ''dest.otf'') = ''Output/MyFont.otf''"
    unfolding p e l by simp
  with a b show ?thesis by blast
qed

text \<open>
  Claim C8 as stated fails. A new font name that starts with a slash makes
  \<^verbatim>\<open>os.path.join\<close> drop the output folder, and an upper case extension of the
  destination file is written in lower case.
\<close>

theorem output_path_counterexample:
  "output_path ''/MyFont'' (path_join ''Destination'' ''dest.otf'') = ''/MyFont.otf'' \<and>
   claimed_output_path ''/MyFont'' (path_join ''Destination'' ''dest.otf'') =
     ''Output//MyFont.otf'' \<and>
   output_path ''MyFont'' (path_join ''Destination'' ''dest.OTF'') = ''Output/MyFont.otf'' \<and>
   claimed_output_path ''MyFont'' (path_join ''Destination'' ''dest.OTF'') =
     ''Output/MyFont.ttf''"
  by code_simp

subsection \<open>The transfer loop\<close>

lemma transfer_loop_append:
  "transfer_loop L P sf mode (xs @ ys) st =
     transfer_loop L P sf mode ys (transfer_loop L P sf mode xs st)"
  by (induction xs arbitrary: st) simp_all




lemma seq_step: "a s = (None, s1) \<Longrightarrow> seq a b s = b s1"
  by (simp add: seq_def)

lemma ask_step: "q s = Inr v \<Longrightarrow> ask q k s = k v s"
  by (simp add: ask_def)

lemma glyph_errors_append: "glyph_errors (xs @ ys) = glyph_errors xs + glyph_errors ys"
  by (induction xs rule: glyph_errors.induct) simp_all

lemma transfer_step_counts:
  "replaced (transfer_step L P sf mode cp st) + skipped (transfer_step L P sf mode cp st) +
     glyph_errors (printed (transfer_step L P sf mode cp st)) =
   replaced st + skipped st + glyph_errors (printed st) + 1"
  by (simp add: transfer_step_def glyph_errors_append
      split: sum.splits bool.splits prod.splits option.splits)

lemma transfer_loop_counts:
  "replaced (transfer_loop L P sf mode cps st) + skipped (transfer_loop L P sf mode cps st) +
     glyph_errors (printed (transfer_loop L P sf mode cps st)) =
   replaced st + skipped st + glyph_errors (printed st) + length cps"
proof (induction cps arbitrary: st)
  case Nil
  then show ?case by simp
next
  case (Cons cp cps)
  show ?case
    using Cons.IH [of "transfer_step L P sf mode cp st"] transfer_step_counts [of L P sf mode cp st]
    by simp
qed

text \<open>
  Claim C10. An iteration that passes the check of the source glyph and then raises
  leaves both counters as they are and prints the error. Over a whole loop, the two
  counters and the number of reported errors grow together by the number of code points,
  so with an error the counters sum to less than the number of requested code points.
\<close>

theorem failed_glyph_not_counted:
  "(source_has_glyph L cp (session st) = Inr True \<and>
    fst (replace_glyph L P sf mode cp (session st)) = Some e \<longrightarrow>
      replaced (transfer_step L P sf mode cp st) = replaced st \<and>
      skipped (transfer_step L P sf mode cp st) = skipped st \<and>
      printed (transfer_step L P sf mode cp st) = printed st @ [GlyphError cp e, Traceback e]) \<and>
   replaced (transfer_loop L P sf mode cps st) + skipped (transfer_loop L P sf mode cps st) +
     glyph_errors (printed (transfer_loop L P sf mode cps st)) =
   replaced st + skipped st + glyph_errors (printed st) + length cps"
proof (intro conjI impI)
  assume a: "source_has_glyph L cp (session st) = Inr True \<and>
    fst (replace_glyph L P sf mode cp (session st)) = Some e"
  then obtain s' where "replace_glyph L P sf mode cp (session st) = (Some e, s')"
    by (cases "replace_glyph L P sf mode cp (session st)") auto
  with a show "replaced (transfer_step L P sf mode cp st) = replaced st"
    and "skipped (transfer_step L P sf mode cp st) = skipped st"
    and "printed (transfer_step L P sf mode cp st) = printed st @ [GlyphError cp e, Traceback e]"
    by (simp_all add: transfer_step_def)
next
  show "replaced (transfer_loop L P sf mode cps st) + skipped (transfer_loop L P sf mode cps st) +
     glyph_errors (printed (transfer_loop L P sf mode cps st)) =
   replaced st + skipped st + glyph_errors (printed st) + length cps"
    by (rule transfer_loop_counts)
qed

theorem failed_glyph_not_counted_witness:
  "source_has_glyph toy_lib_no_paste 0x41 (session (loop_start toy_opened)) = Inr True \<and>
   fst (replace_glyph toy_lib_no_paste toy_float 2 ''1'' 0x41 (session (loop_start toy_opened)))
     = Some (FontError ''paste failed'') \<and>
   replaced (transfer_step toy_lib_no_paste toy_float 2 ''1'' 0x41 (loop_start toy_opened)) = 0 \<and>
   skipped (transfer_step toy_lib_no_paste toy_float 2 ''1'' 0x41 (loop_start toy_opened)) = 0 \<and>
   replaced (transfer_loop toy_lib_no_paste toy_float 2 ''1'' [0x41, 0x44] (loop_start toy_opened))
     + skipped (transfer_loop toy_lib_no_paste toy_float 2 ''1'' [0x41, 0x44]
         (loop_start toy_opened))
     < length [0x41, 0x44 :: int]"
proof -
  let ?st = "loop_start toy_opened"
  have h: "source_has_glyph toy_lib_no_paste 0x41 (session ?st) = Inr True"
    "fst (replace_glyph toy_lib_no_paste toy_float 2 ''1'' 0x41 (session ?st))
       = Some (FontError ''paste failed'')"
    by code_simp+
  have z: "replaced ?st = 0" "skipped ?st = 0" "glyph_errors (printed ?st) = 0"
    by code_simp+
  have e: "glyph_errors (printed (transfer_loop toy_lib_no_paste toy_float 2 ''1'' [0x41, 0x44]
      ?st)) = 1"
    by code_simp
  note t = failed_glyph_not_counted [of toy_lib_no_paste "0x41" ?st toy_float 2 "''1''"
      "FontError ''paste failed''" "[0x41, 0x44]"]
  from t h z e show ?thesis by simp
qed

lemma transfer_step_missing:
  "source_has_glyph L cp (session st) = Inr False \<Longrightarrow>
   transfer_step L P sf mode cp st =
     st\<lparr>printed := printed st @ [Missing cp], skipped := skipped st + 1\<rparr>"
  by (simp add: transfer_step_def)

lemma run_loop_returns:
  "run_loop L P sf mode cps w =
     (Inr (replaced (transfer_loop L P sf mode cps (loop_start w)),
           skipped (transfer_loop L P sf mode cps (loop_start w))),
      w\<lparr>stdout := printed (transfer_loop L P sf mode cps (loop_start w)),
        lib_state := session (transfer_loop L P sf mode cps (loop_start w))\<rparr>)"
  by (simp add: run_loop_def Let_def)

lemma transfer_and_save_ok:
  assumes "generate L Out out_path (session (transfer_loop L P sf mode cps (loop_start w))) = Inr c"
    and "seq (close L Src) (close L Out) (session (transfer_loop L P sf mode cps (loop_start w)))
           = (None, s')"
  shows "transfer_and_save L P sf mode cps out_path w =
     (Inr (),
      w\<lparr>stdout := printed (transfer_loop L P sf mode cps (loop_start w)) @
           [Done, Counts (replaced (transfer_loop L P sf mode cps (loop_start w)))
                         (skipped (transfer_loop L P sf mode cps (loop_start w))),
            Saved out_path],
        files := (files w)(resolve w out_path := Some c),
        lib_state := s'\<rparr>)"
  using assms
  by (simp add: transfer_and_save_def bind_def run_loop_returns save_and_close_def lib_cmd_def
      say_all_def)

text \<open>
  Claim C3. When the loop reaches a code point for which the source font has no
  outputtable glyph, the iteration prints the code point, adds one to the skipped counter
  and changes nothing else (the library state, and with it the slot of the output font,
  stays as it is), and the loop goes on with the remaining code points. The loop always
  returns its counters; then, when \<^verbatim>\<open>generate\<close> and \<^verbatim>\<open>close\<close> do not raise, the font
  is written to the output path and the final counts are printed.
\<close>

theorem missing_glyph_skipped:
  "source_has_glyph L cp (session (transfer_loop L P sf mode pre (loop_start w))) = Inr False \<longrightarrow>
     transfer_loop L P sf mode (pre @ cp # post) (loop_start w) =
       transfer_loop L P sf mode post
         ((transfer_loop L P sf mode pre (loop_start w))
            \<lparr>printed := printed (transfer_loop L P sf mode pre (loop_start w)) @ [Missing cp],
             skipped := skipped (transfer_loop L P sf mode pre (loop_start w)) + 1\<rparr>) \<and>
     (\<exists>w'. run_loop L P sf mode (pre @ cp # post) w =
        (Inr (replaced (transfer_loop L P sf mode (pre @ cp # post) (loop_start w)),
              skipped (transfer_loop L P sf mode (pre @ cp # post) (loop_start w))), w')) \<and>
     (generate L Out out_path
        (session (transfer_loop L P sf mode (pre @ cp # post) (loop_start w))) = Inr c \<and>
      fst (seq (close L Src) (close L Out)
        (session (transfer_loop L P sf mode (pre @ cp # post) (loop_start w)))) = None \<longrightarrow>
        (\<exists>w'. transfer_and_save L P sf mode (pre @ cp # post) out_path w = (Inr (), w') \<and>
           files w' (resolve w out_path) = Some c \<and>
           stdout w' =
             printed (transfer_loop L P sf mode (pre @ cp # post) (loop_start w)) @
               [Done,
                Counts (replaced (transfer_loop L P sf mode (pre @ cp # post) (loop_start w)))
                       (skipped (transfer_loop L P sf mode (pre @ cp # post) (loop_start w))),
                Saved out_path]))"
proof (intro impI conjI)
  assume m: "source_has_glyph L cp (session (transfer_loop L P sf mode pre (loop_start w))) = Inr False"
  show "transfer_loop L P sf mode (pre @ cp # post) (loop_start w) =
       transfer_loop L P sf mode post
         ((transfer_loop L P sf mode pre (loop_start w))
            \<lparr>printed := printed (transfer_loop L P sf mode pre (loop_start w)) @ [Missing cp],
             skipped := skipped (transfer_loop L P sf mode pre (loop_start w)) + 1\<rparr>)"
    by (simp add: transfer_loop_append transfer_step_missing [OF m])
  show "\<exists>w'. run_loop L P sf mode (pre @ cp # post) w =
        (Inr (replaced (transfer_loop L P sf mode (pre @ cp # post) (loop_start w)),
              skipped (transfer_loop L P sf mode (pre @ cp # post) (loop_start w))), w')"
    by (simp add: run_loop_returns)
next
  let ?stF = "transfer_loop L P sf mode (pre @ cp # post) (loop_start w)"
  assume "generate L Out out_path (session ?stF) = Inr c \<and>
      fst (seq (close L Src) (close L Out) (session ?stF)) = None"
  then have g: "generate L Out out_path (session ?stF) = Inr c"
    and cl: "seq (close L Src) (close L Out) (session ?stF) =
      (None, snd (seq (close L Src) (close L Out) (session ?stF)))"
    by (simp_all add: prod_eq_iff)
  show "\<exists>w'. transfer_and_save L P sf mode (pre @ cp # post) out_path w = (Inr (), w') \<and>
           files w' (resolve w out_path) = Some c \<and>
           stdout w' = printed ?stF @ [Done, Counts (replaced ?stF) (skipped ?stF), Saved out_path]"
    unfolding transfer_and_save_ok [OF g cl] by simp
qed

theorem missing_glyph_skipped_witness:
  "source_has_glyph toy_lib 0x44
     (session (transfer_loop toy_lib toy_float 2 ''2'' [0x41] (loop_start toy_opened))) = Inr False \<and>
   skipped (transfer_loop toy_lib toy_float 2 ''2'' ([0x41] @ 0x44 # []) (loop_start toy_opened)) = 1 \<and>
   (\<exists>w'. transfer_and_save toy_lib toy_float 2 ''2'' ([0x41] @ 0x44 # []) ''Output/MyFont.otf''
            toy_opened = (Inr (), w') \<and>
         stdout w' = [Replaced 0x41, Missing 0x44, Done, Counts 1 1, Saved ''Output/MyFont.otf''])"
proof -
  let ?F = "transfer_loop toy_lib toy_float 2 ''2'' ([0x41] @ 0x44 # []) (loop_start toy_opened)"
  have h: "source_has_glyph toy_lib 0x44
     (session (transfer_loop toy_lib toy_float 2 ''2'' [0x41] (loop_start toy_opened))) = Inr False"
    by code_simp
  have g: "generate toy_lib Out ''Output/MyFont.otf'' (session ?F) = Inr (toy_get Out (session ?F))"
    by (simp add: toy_lib_def)
  have c: "fst (seq (close toy_lib Src) (close toy_lib Out) (session ?F)) = None"
    by (simp add: toy_lib_def seq_def)
  have v: "skipped ?F = 1" "replaced ?F = 1" "printed ?F = [Replaced 0x41, Missing 0x44]"
    by code_simp+
  note t = missing_glyph_skipped [of toy_lib "0x44" toy_float 2 "''2''" "[0x41]" toy_opened "[]"
      "''Output/MyFont.otf''" "toy_get Out (session ?F)"]
  from t h g c v show ?thesis by auto
qed









subsection \<open>Files and fonts over a whole run\<close>

lemma unchanged_refl: "unchanged w w"
  by (simp add: unchanged_def)
















lemma no_exit_1D:
  assumes "no_exit_1 m" and "m w = (Inl st, w')"
  shows "st \<noteq> Exit 1"
proof -
  have "fst (m w) \<noteq> Inl (Exit 1)"
    using assms(1) unfolding no_exit_1_def by (rule spec)
  with assms(2) show ?thesis by auto
qed

lemma no_exit_1I:
  assumes "\<And>w w'. m w \<noteq> (Inl (Exit 1), w')"
  shows "no_exit_1 m"
  unfolding no_exit_1_def
proof
  fix w
  show "fst (m w) \<noteq> Inl (Exit 1)"
    using assms [of w "snd (m w)"] by (cases "m w") auto
qed

lemma no_exit_1_bind:
  assumes "no_exit_1 m" and "\<And>a. no_exit_1 (k a)"
  shows "no_exit_1 (bind m k)"
proof (rule no_exit_1I)
  fix w w'
  obtain r1 w1 where mw: "m w = (r1, w1)" by (cases "m w")
  show "bind m k w \<noteq> (Inl (Exit 1), w')"
  proof (cases r1)
    case (Inl st)
    with mw have "m w = (Inl st, w1)" by simp
    with assms(1) have "st \<noteq> Exit 1" by (rule no_exit_1D)
    with Inl mw show ?thesis by (simp add: bind_def)
  next
    case (Inr a)
    then have e: "bind m k w = k a w1" using mw by (simp add: bind_def)
    show ?thesis
    proof
      assume "bind m k w = (Inl (Exit 1), w')"
      with e have "k a w1 = (Inl (Exit 1), w')" by simp
      with assms(2) [of a] have "Exit 1 \<noteq> Exit 1" by (rule no_exit_1D)
      then show False by simp
    qed
  qed
qed

lemma no_exit_1_after: "no_exit_1 m \<Longrightarrow> no_exit_1 (\<lambda>w. m (f w))"
  by (simp add: no_exit_1_def)

lemma no_exit_1_input: "no_exit_1 (input p)"
  by (simp add: no_exit_1_def input_def split: list.splits)

lemma no_exit_1_makedirs: "no_exit_1 (makedirs p)"
  by (simp add: no_exit_1_def makedirs_def)

lemma no_exit_1_input_required: "no_exit_1 (input_required p e)"
  by (simp add: no_exit_1_def input_required_def split: prod.splits option.splits)

lemma no_exit_1_lib_cmd: "no_exit_1 (lib_cmd c)"
  by (simp add: no_exit_1_def lib_cmd_def split: prod.splits option.splits)

lemmas no_exit_1_intros =
  no_exit_1_bind no_exit_1_input no_exit_1_makedirs no_exit_1_input_required no_exit_1_lib_cmd
  no_exit_1_after [OF no_exit_1_input] no_exit_1_after [OF no_exit_1_makedirs]
  no_exit_1_after [OF no_exit_1_input_required]

lemma no_exit_1_read_codepoints: "no_exit_1 read_codepoints"
  unfolding read_codepoints_def
  by (intro no_exit_1_intros) (simp add: no_exit_1_def Let_def)

lemma no_exit_1_read_metadata: "no_exit_1 read_metadata"
  unfolding read_metadata_def
  by (intro no_exit_1_intros) (simp add: no_exit_1_def)







lemma unchanged_writes_only: "unchanged w w' \<Longrightarrow> writes_only out w w'"
  by (simp add: unchanged_def writes_only_def)

















end
